theory Spec2Isabelle
  imports Main
begin

section \<open>Python values and exceptions\<close>

text \<open>
  The module \<^verbatim>\<open>owl_server/k8s.py\<close> builds a Kubernetes job object and issues
  create, delete and list calls through a client library. The exceptions that the code
  below can meet are values of \<open>py_error\<close>; a computation that may raise returns
  \<open>py_error + 'a\<close>, with \<open>Inl\<close> for the exception. \<open>ApiException\<close> carries the
  text of the exception, \<open>UnboundLocalError\<close> the name of the variable, \<open>AttributeError\<close>
  the type of the object and the attribute, \<open>KeyError\<close> the key; \<open>OtherError\<close> is any other
  exception that a library call raises.
\<close>

datatype py_error =
    ApiException string
  | UnboundLocalError string
  | AttributeError string string
  | KeyError string
  | OtherError string

text \<open>
  A value returned by a function of the module: \<^verbatim>\<open>None\<close>, or the response object of
  an awaited client call (kept as the text the library prints for it).
\<close>

datatype py_result = PyNone | PyResponse string

text \<open>
  \<^verbatim>\<open>x or d\<close> for an argument that is a string or \<^verbatim>\<open>None\<close>: both \<^verbatim>\<open>None\<close> and the
  empty string are falsy.
\<close>

definition str_or :: "string option \<Rightarrow> string \<Rightarrow> string" where
  "str_or x d = (case x of None \<Rightarrow> d | Some s \<Rightarrow> if s = [] then d else s)"

text \<open>
  \<^verbatim>\<open>str.split()\<close> without a separator: runs of whitespace separate the tokens and
  empty tokens are dropped. A character is taken as its code point below 256, where
  Python's whitespace is 9 to 13, 28 to 32, 133 and 160.
\<close>

definition isspace :: "char \<Rightarrow> bool" where
  "isspace c = ((of_char c :: nat) \<in> {9, 10, 11, 12, 13, 28, 29, 30, 31, 32, 133, 160})"

fun split_from :: "string \<Rightarrow> string \<Rightarrow> string list" where
  "split_from tok [] = (if tok = [] then [] else [tok])"
| "split_from tok (c # cs) =
     (if isspace c
      then (if tok = [] then split_from [] cs else tok # split_from [] cs)
      else split_from (tok @ [c]) cs)"

definition str_split :: "string \<Rightarrow> string list" where
  "str_split s = split_from [] s"

text \<open>\<^verbatim>\<open>d[k]\<close> on a dictionary, kept as the list of its items: a missing key raises.\<close>

definition getitem :: "(string \<times> 'a) list \<Rightarrow> string \<Rightarrow> py_error + 'a" where
  "getitem d k = (case map_of d k of None \<Rightarrow> Inl (KeyError k) | Some v \<Rightarrow> Inr v)"

section \<open>The objects of the client library\<close>

text \<open>
  The classes of the client library are records of the fields that the module sets; a
  field left out of a constructor call is \<^verbatim>\<open>None\<close> there and is not recorded.
  \<open>'o\<close> is the type of the objects that \<^verbatim>\<open>_make_spec_from_dict\<close> returns and
  \<open>'r\<close> the type of a resource-requirements object.
\<close>

record V1EnvVar =
  env_name :: string
  env_value :: string

record V1ObjectMeta =
  meta_namespace :: string
  meta_name :: "string option"

datatype V1JobStatus = V1JobStatus

record ('o, 'r) V1Container =
  container_name :: string
  image :: "string option"
  env :: "V1EnvVar list"
  image_pull_policy :: string
  args :: "string list"
  resources :: "'r option"
  volume_mounts :: "'o list"
  container_security_context :: "'o option"

record ('o, 'r) V1PodSpec =
  containers :: "('o, 'r) V1Container list"
  restart_policy :: string
  termination_grace_period_seconds :: int
  volumes :: "'o list"
  service_account_name :: "string option"
  pod_security_context :: "'o option"
  node_selector :: "(string \<times> string) list option"

record ('o, 'r) V1PodTemplateSpec =
  template_spec :: "('o, 'r) V1PodSpec"

record ('o, 'r) V1JobSpec =
  ttl_seconds_after_finished :: int
  template :: "('o, 'r) V1PodTemplateSpec"
  backoff_limit :: int

record ('o, 'r) V1Job =
  api_version :: string
  kind :: string
  metadata :: V1ObjectMeta
  status :: V1JobStatus
  spec :: "('o, 'r) V1JobSpec"

text \<open>The target classes handed to \<^verbatim>\<open>_make_spec_from_dict\<close>.\<close>

datatype spec_class = V1VolumeMount | V1SecurityContext | V1Volume | V1PodSecurityContext

text \<open>
  What the builder calls and the repository does not hold: Python's \<^verbatim>\<open>str\<close> on a
  value of a dictionary (\<open>'v\<close>), \<^verbatim>\<open>_make_spec_from_dict\<close> of \<^verbatim>\<open>owl_server/utils.py\<close>
  on a loosely typed structure (\<open>'d\<close>), and the constructor
  \<^verbatim>\<open>client.V1ResourceRequirements(**resources)\<close>, which rejects a keyword it does not
  know. They are parameters of the builder.
\<close>

type_synonym 'v resources_dict = "(string \<times> (string \<times> 'v) list) list"

record ('v, 'd, 'o, 'r) library =
  py_str :: "'v \<Rightarrow> string"
  make_spec_from_dict :: "'d \<Rightarrow> spec_class \<Rightarrow> py_error + 'o"
  V1ResourceRequirements :: "'v resources_dict \<Rightarrow> py_error + 'r"

section \<open>The job builder\<close>

text \<open>
  \<^verbatim>\<open>extraConfig\<close> is read by attribute. It is \<^verbatim>\<open>None\<close>, a plain dictionary (which
  has no such attributes), or a configuration object with the six attributes that the
  builder reads.
\<close>

record ('v, 'd) extra_attrs =
  cfg_resources :: "'v resources_dict option"
  cfg_volumeMounts :: "'d list"
  cfg_securityContext :: "'d option"
  cfg_volumes :: "'d list"
  cfg_podSecurityContext :: "'d option"
  cfg_node_selector :: "(string \<times> string) list option"

datatype ('v, 'd) extra_config =
    ExtraNone
  | ExtraDict "(string \<times> 'v) list"
  | ExtraObject "('v, 'd) extra_attrs"

text \<open>\<^verbatim>\<open>extraConfig.resources\<close>, the first attribute that the builder reads.\<close>

definition get_attrs :: "('v, 'd) extra_config \<Rightarrow> py_error + ('v, 'd) extra_attrs" where
  "get_attrs extraConfig =
     (case extraConfig of
        ExtraNone \<Rightarrow> Inl (AttributeError ''NoneType'' ''resources'')
      | ExtraDict d \<Rightarrow> Inl (AttributeError ''dict'' ''resources'')
      | ExtraObject cfg \<Rightarrow> Inr cfg)"

text \<open>
  Lines 119 to 130: the resource requirements and the four environment entries made
  from them, or \<^verbatim>\<open>None\<close> and no entry. The constructor runs first, then the four
  look-ups in the order of the source.
\<close>

definition resource_env ::
  "('v, 'd, 'o, 'r) library \<Rightarrow> 'v resources_dict option \<Rightarrow> py_error + ('r option \<times> V1EnvVar list)"
where
  "resource_env lib res =
     (case res of
        None \<Rightarrow> Inr (None, [])
      | Some rs \<Rightarrow>
          (case V1ResourceRequirements lib rs of
             Inl e \<Rightarrow> Inl e
           | Inr resourcesReq \<Rightarrow>
          (case getitem rs ''requests'' of
             Inl e \<Rightarrow> Inl e
           | Inr requests \<Rightarrow>
          (case getitem requests ''cpu'' of
             Inl e \<Rightarrow> Inl e
           | Inr cpu_requests \<Rightarrow>
          (case getitem requests ''memory'' of
             Inl e \<Rightarrow> Inl e
           | Inr mem_requests \<Rightarrow>
          (case getitem rs ''limits'' of
             Inl e \<Rightarrow> Inl e
           | Inr limits \<Rightarrow>
          (case getitem limits ''cpu'' of
             Inl e \<Rightarrow> Inl e
           | Inr cpu_limits \<Rightarrow>
          (case getitem limits ''memory'' of
             Inl e \<Rightarrow> Inl e
           | Inr mem_limits \<Rightarrow>
               Inr (Some resourcesReq,
                    [\<lparr>env_name = ''CPU_REQUESTS'', env_value = py_str lib cpu_requests\<rparr>,
                     \<lparr>env_name = ''MEM_REQUESTS'', env_value = py_str lib mem_requests\<rparr>,
                     \<lparr>env_name = ''CPU_LIMITS'', env_value = py_str lib cpu_limits\<rparr>,
                     \<lparr>env_name = ''MEM_LIMITS'', env_value = py_str lib mem_limits\<rparr>])))))))))"

text \<open>
  The loops over \<^verbatim>\<open>volumeMounts\<close> and \<^verbatim>\<open>volumes\<close>: each entry is mapped in turn
  and the first failure leaves the loop.
\<close>

fun map_specs ::
  "('v, 'd, 'o, 'r) library \<Rightarrow> spec_class \<Rightarrow> 'd list \<Rightarrow> py_error + 'o list"
where
  "map_specs lib cls [] = Inr []"
| "map_specs lib cls (d # ds) =
     (case make_spec_from_dict lib d cls of
        Inl e \<Rightarrow> Inl e
      | Inr x \<Rightarrow> (case map_specs lib cls ds of Inl e \<Rightarrow> Inl e | Inr xs \<Rightarrow> Inr (x # xs)))"

text \<open>A security context: mapped when it is not \<^verbatim>\<open>None\<close>.\<close>

definition opt_spec ::
  "('v, 'd, 'o, 'r) library \<Rightarrow> spec_class \<Rightarrow> 'd option \<Rightarrow> py_error + 'o option"
where
  "opt_spec lib cls ctx =
     (case ctx of
        None \<Rightarrow> Inr None
      | Some d \<Rightarrow> (case make_spec_from_dict lib d cls of Inl e \<Rightarrow> Inl e | Inr x \<Rightarrow> Inr (Some x)))"

text \<open>
  Lines 100 and 115 to 117: \<^verbatim>\<open>env_vars or {}\<close>, then one entry for each item of the
  dictionary, its value through \<^verbatim>\<open>str\<close>.
\<close>

definition env_entries ::
  "('v, 'd, 'o, 'r) library \<Rightarrow> (string \<times> 'v) list option \<Rightarrow> V1EnvVar list"
where
  "env_entries lib env_vars =
     map (\<lambda>(n, v). \<lparr>env_name = n, env_value = py_str lib v\<rparr>)
       (case env_vars of None \<Rightarrow> [] | Some d \<Rightarrow> d)"

text \<open>
  \<^verbatim>\<open>kube_create_job_object\<close>, lines 66 to 175. \<^verbatim>\<open>name\<close> and \<^verbatim>\<open>container_image\<close>
  are passed on as they come (\<open>None\<close> is Python's \<^verbatim>\<open>None\<close>); \<^verbatim>\<open>env_vars\<close> is the
  list of the dictionary's items in their order.
\<close>

definition kube_create_job_object ::
  "('v, 'd, 'o, 'r) library \<Rightarrow> string option \<Rightarrow> string option \<Rightarrow> string option \<Rightarrow>
   string option \<Rightarrow> string option \<Rightarrow> (string \<times> 'v) list option \<Rightarrow> ('v, 'd) extra_config \<Rightarrow>
   string option \<Rightarrow> py_error + ('o, 'r) V1Job"
where
  "kube_create_job_object lib name container_image command namespace cname env_vars
     extraConfig sa_name =
     (let namespace' = str_or namespace ''default'';
          command' = str_or command ''sleep 60'';
          cname' = str_or cname ''jobcontainer'';
          env_list = env_entries lib env_vars
      in
      case get_attrs extraConfig of
        Inl e \<Rightarrow> Inl e
      | Inr cfg \<Rightarrow>
      (case resource_env lib (cfg_resources cfg) of
        Inl e \<Rightarrow> Inl e
      | Inr (resourcesReq, res_env) \<Rightarrow>
      (case map_specs lib V1VolumeMount (cfg_volumeMounts cfg) of
        Inl e \<Rightarrow> Inl e
      | Inr vmounts \<Rightarrow>
      (case opt_spec lib V1SecurityContext (cfg_securityContext cfg) of
        Inl e \<Rightarrow> Inl e
      | Inr secReq \<Rightarrow>
      (case map_specs lib V1Volume (cfg_volumes cfg) of
        Inl e \<Rightarrow> Inl e
      | Inr vols \<Rightarrow>
      (case opt_spec lib V1PodSecurityContext (cfg_podSecurityContext cfg) of
        Inl e \<Rightarrow> Inl e
      | Inr podSecReq \<Rightarrow>
          Inr \<lparr>api_version = ''batch/v1'',
               kind = ''Job'',
               metadata = \<lparr>meta_namespace = namespace', meta_name = name\<rparr>,
               status = V1JobStatus,
               spec = \<lparr>ttl_seconds_after_finished = 300,
                       template = \<lparr>template_spec =
                         \<lparr>containers =
                            [\<lparr>container_name = cname',
                              image = container_image,
                              env = env_list @ res_env,
                              image_pull_policy = ''IfNotPresent'',
                              args = str_split command',
                              resources = resourcesReq,
                              volume_mounts = vmounts,
                              container_security_context = secReq\<rparr>],
                          restart_policy = ''Never'',
                          termination_grace_period_seconds = 30,
                          volumes = vols,
                          service_account_name = sa_name,
                          pod_security_context = podSecReq,
                          node_selector = cfg_node_selector cfg\<rparr>\<rparr>,
                       backoff_limit = 2\<rparr>\<rparr>))))))"

text \<open>The pod specification and the container of a built job.\<close>

definition pod_spec_of :: "('o, 'r) V1Job \<Rightarrow> ('o, 'r) V1PodSpec" where
  "pod_spec_of job = template_spec (template (spec job))"



section \<open>The calls to the cluster\<close>

text \<open>
  The module imports the asynchronous client \<^verbatim>\<open>kubernetes_asyncio\<close>. A method of its
  API objects does not send the request: it returns a coroutine, and the request is sent
  when the coroutine is awaited. \<^verbatim>\<open>kube_create_job\<close> and \<^verbatim>\<open>kube_delete_job\<close> await
  their calls (lines 202 and 210). \<^verbatim>\<open>kube_delete_empty_pods\<close> is a plain function and
  awaits nothing (lines 38 and 47).

  The cluster is not part of the module: what it answers to a request is a parameter.
  A call is written with the arguments that the code passes; the third argument of the
  pod delete is always the empty \<^verbatim>\<open>V1DeleteOptions()\<close> and is left out.
\<close>

record V1Pod =
  pod_name :: string
  pod_phase :: string

datatype pod_call =
    ListNamespacedPod string bool int
  | DeleteNamespacedPod string string

datatype response = V1PodList "V1Pod list" | V1Status string

type_synonym cluster = "pod_call \<Rightarrow> py_error + response"

text \<open>
  What a variable of \<^verbatim>\<open>kube_delete_empty_pods\<close> is bound to: the coroutine of a call,
  which holds the call and the answer that the cluster gives to whoever awaits it, or a
  response.
\<close>

datatype py_object =
    Coroutine pod_call "py_error + response"
  | Response response

text \<open>
  A method of \<^verbatim>\<open>client.CoreV1Api()\<close> called without \<^verbatim>\<open>await\<close>: the coroutine is
  made and returned, nothing is sent and nothing is raised.
\<close>

definition call_unawaited :: "cluster \<Rightarrow> pod_call \<Rightarrow> py_error + py_object" where
  "call_unawaited cluster c = Inr (Coroutine c (cluster c))"

text \<open>\<^verbatim>\<open>pods.items\<close>, line 42: a pod list has the attribute, a coroutine has not.\<close>

fun get_items :: "py_object \<Rightarrow> py_error + V1Pod list" where
  "get_items (Response (V1PodList items)) = Inr items"
| "get_items (Response (V1Status s)) = Inl (AttributeError ''V1Status'' ''items'')"
| "get_items (Coroutine c r) = Inl (AttributeError ''coroutine'' ''items'')"

text \<open>
  An execution is recorded as the list of the coroutines that it makes and of the
  records that it logs, in their order.
\<close>

datatype pod_event =
    Created pod_call
  | LogError string
  | LogInfo string
  | LogDebugPod V1Pod
  | LogDebugObject py_object

text \<open>\<^verbatim>\<open>except ApiException as e\<close>: the text of the exception when the clause catches it.\<close>

fun catch_ApiException :: "py_error \<Rightarrow> string option" where
  "catch_ApiException (ApiException e) = Some e"
| "catch_ApiException _ = None"

text \<open>
  The loop of lines 42 to 61 over the items. The delete call is not awaited either; an
  \<^verbatim>\<open>ApiException\<close> inside the \<^verbatim>\<open>try\<close> is logged and the loop goes on, any other
  exception leaves the function.
\<close>

fun delete_pods ::
  "cluster \<Rightarrow> string \<Rightarrow> string \<Rightarrow> V1Pod list \<Rightarrow> pod_event list \<Rightarrow>
   (py_error + unit) \<times> pod_event list"
where
  "delete_pods cluster namespace phase [] t = (Inr (), t)"
| "delete_pods cluster namespace phase (pod # pods) t =
     (let t1 = t @ [LogDebugPod pod];
          podname = pod_name pod
      in
      if pod_phase pod = phase then
        (case call_unawaited cluster (DeleteNamespacedPod podname namespace) of
           Inr api_response \<Rightarrow>
             delete_pods cluster namespace phase pods
               (t1 @ [Created (DeleteNamespacedPod podname namespace),
                      LogInfo (''Pod: '' @ podname @ '' deleted!''),
                      LogDebugObject api_response])
         | Inl err \<Rightarrow>
             (case catch_ApiException err of
                Some e \<Rightarrow>
                  delete_pods cluster namespace phase pods
                    (t1 @ [LogError (''Exception when calling CoreV1Api->delete_namespaced_pod: ''
                                     @ e @ [CHR 0x0A])])
              | None \<Rightarrow> (Inl err, t1)))
      else
        delete_pods cluster namespace phase pods
          (t1 @ [LogInfo (''Pod: '' @ podname @ '' still not done... Phase: '' @ pod_phase pod)]))"

text \<open>
  \<^verbatim>\<open>kube_delete_empty_pods\<close>, lines 23 to 63. The handler of lines 39 and 40 logs an
  \<^verbatim>\<open>ApiException\<close> of the list call and binds nothing, so that the \<^verbatim>\<open>for\<close>
  statement would read the unbound \<^verbatim>\<open>pods\<close>. Line 42 reads \<^verbatim>\<open>pods.items\<close> outside
  any \<^verbatim>\<open>try\<close>. The function ends with a bare \<^verbatim>\<open>return\<close>.
\<close>

definition kube_delete_empty_pods ::
  "cluster \<Rightarrow> string option \<Rightarrow> string option \<Rightarrow> (py_error + py_result) \<times> pod_event list"
where
  "kube_delete_empty_pods cluster namespace phase =
     (let namespace' = str_or namespace ''default'';
          phase' = str_or phase ''Succeeded'';
          t0 = [Created (ListNamespacedPod namespace' True 60)]
      in
      case call_unawaited cluster (ListNamespacedPod namespace' True 60) of
        Inr pods \<Rightarrow>
          (case get_items pods of
             Inl err \<Rightarrow> (Inl err, t0)
           | Inr items \<Rightarrow>
               (case delete_pods cluster namespace' phase' items t0 of
                  (Inl err, t) \<Rightarrow> (Inl err, t)
                | (Inr u, t) \<Rightarrow> (Inr PyNone, t)))
      | Inl err \<Rightarrow>
          (case catch_ApiException err of
             Some e \<Rightarrow>
               (Inl (UnboundLocalError ''pods''),
                [LogError (''Exception when calling CoreV1Api->list_namespaced_pod: ''
                           @ e @ [CHR 0x0A])])
           | None \<Rightarrow> (Inl err, [])))"

text \<open>The calls of the two job operations.\<close>

datatype ('o, 'r) job_call =
    LoadInclusterConfig
  | CreateNamespacedJob string "('o, 'r) V1Job" bool
  | DeleteNamespacedJob string string string int

record ('o, 'r) job_api =
  load_incluster_config :: "py_error + unit"
  create_namespaced_job :: "string \<Rightarrow> ('o, 'r) V1Job \<Rightarrow> bool \<Rightarrow> py_error + string"
  delete_namespaced_job :: "string \<Rightarrow> string \<Rightarrow> string \<Rightarrow> int \<Rightarrow> py_error + string"

text \<open>
  \<^verbatim>\<open>extraConfig or {}\<close>, line 195: \<^verbatim>\<open>None\<close> and the empty dictionary are falsy, a
  configuration object is truthy.
\<close>

definition extra_or_empty :: "('v, 'd) extra_config \<Rightarrow> ('v, 'd) extra_config" where
  "extra_or_empty extraConfig =
     (case extraConfig of
        ExtraNone \<Rightarrow> ExtraDict []
      | ExtraDict d \<Rightarrow> (if d = [] then ExtraDict [] else ExtraDict d)
      | ExtraObject cfg \<Rightarrow> ExtraObject cfg)"

text \<open>
  \<^verbatim>\<open>kube_create_job\<close>, lines 178 to 203: the builder runs first, then the
  configuration is loaded and the job is created.
\<close>

definition kube_create_job ::
  "('v, 'd, 'o, 'r) library \<Rightarrow> ('o, 'r) job_api \<Rightarrow> string option \<Rightarrow> string option \<Rightarrow>
   string option \<Rightarrow> string option \<Rightarrow> ('v, 'd) extra_config \<Rightarrow> (string \<times> 'v) list option \<Rightarrow>
   string option \<Rightarrow> (py_error + py_result) \<times> ('o, 'r) job_call list"
where
  "kube_create_job lib api name img command namespace extraConfig env_vars sa_name =
     (let namespace' = str_or namespace ''default'' in
      case kube_create_job_object lib name img (Some (str_or command ''sleep 60''))
             (Some namespace') None env_vars (extra_or_empty extraConfig) sa_name of
        Inl err \<Rightarrow> (Inl err, [])
      | Inr body \<Rightarrow>
          (case load_incluster_config api of
             Inl err \<Rightarrow> (Inl err, [LoadInclusterConfig])
           | Inr u \<Rightarrow>
               (case create_namespaced_job api namespace' body True of
                  Inl err \<Rightarrow>
                    (Inl err, [LoadInclusterConfig, CreateNamespacedJob namespace' body True])
                | Inr res \<Rightarrow>
                    (Inr (PyResponse res),
                     [LoadInclusterConfig, CreateNamespacedJob namespace' body True]))))"

text \<open>\<^verbatim>\<open>kube_delete_job\<close>, lines 206 to 216.\<close>

definition kube_delete_job ::
  "('o, 'r) job_api \<Rightarrow> string \<Rightarrow> string option \<Rightarrow>
   (py_error + py_result) \<times> ('o, 'r) job_call list"
where
  "kube_delete_job api name namespace =
     (case load_incluster_config api of
        Inl err \<Rightarrow> (Inl err, [LoadInclusterConfig])
      | Inr u \<Rightarrow>
          (let call = DeleteNamespacedJob name (str_or namespace ''default'') ''Background'' 0 in
           case delete_namespaced_job api name (str_or namespace ''default'') ''Background'' 0 of
             Inl err \<Rightarrow> (Inl err, [LoadInclusterConfig, call])
           | Inr res \<Rightarrow> (Inr (PyResponse res), [LoadInclusterConfig, call])))"

section \<open>Worked inputs\<close>

text \<open>
  Concrete inputs on which the theorems below are run. In \<open>example_library\<close> the
  values of the dictionaries are strings, on which \<^verbatim>\<open>str\<close> is the identity, a mapped
  structure is kept with its target class, and the resource requirements accept the two
  keywords \<^verbatim>\<open>limits\<close> and \<^verbatim>\<open>requests\<close>.
\<close>

definition example_library ::
  "(string, (string \<times> string) list, spec_class \<times> (string \<times> string) list,
    string resources_dict) library"
where
  "example_library =
     \<lparr>py_str = (\<lambda>s. s),
      make_spec_from_dict = (\<lambda>d cls. Inr (cls, d)),
      V1ResourceRequirements =
        (\<lambda>rs. if set (map fst rs) \<subseteq> {''limits'', ''requests''} then Inr rs
              else Inl (OtherError ''TypeError''))\<rparr>"

definition example_config :: "(string, (string \<times> string) list) extra_attrs" where
  "example_config =
     \<lparr>cfg_resources =
        Some [(''requests'', [(''cpu'', ''500m''), (''memory'', ''1Gi'')]),
              (''limits'', [(''cpu'', ''1''), (''memory'', ''2Gi'')])],
      cfg_volumeMounts = [[(''name'', ''data''), (''mountPath'', ''/data'')]],
      cfg_securityContext = None,
      cfg_volumes = [[(''name'', ''data'')]],
      cfg_podSecurityContext = None,
      cfg_node_selector = None\<rparr>"

definition example_job_api ::
  "(spec_class \<times> (string \<times> string) list, string resources_dict) job_api"
where
  "example_job_api =
     \<lparr>load_incluster_config = Inr (),
      create_namespaced_job = (\<lambda>ns body pretty. Inr ''created''),
      delete_namespaced_job = (\<lambda>n ns policy grace. Inr ''deleted'')\<rparr>"

text \<open>
  A namespace of three pods, two of them succeeded, and three clusters: one that answers
  every request, one where the delete of pod \<open>a\<close> is answered by an error, and one where
  every request is answered by an error. The text of the exception is the one that the
  library prints for status 503.
\<close>

definition three_pods :: "V1Pod list" where
  "three_pods =
     [\<lparr>pod_name = ''a'', pod_phase = ''Succeeded''\<rparr>,
      \<lparr>pod_name = ''b'', pod_phase = ''Running''\<rparr>,
      \<lparr>pod_name = ''c'', pod_phase = ''Succeeded''\<rparr>]"

definition service_unavailable :: py_error where
  "service_unavailable =
     ApiException (''(503)'' @ [CHR 0x0A] @ ''Reason: Service Unavailable'' @ [CHR 0x0A])"

definition healthy_cluster :: cluster where
  "healthy_cluster c =
     (case c of
        ListNamespacedPod ns pretty timeout \<Rightarrow> Inr (V1PodList three_pods)
      | DeleteNamespacedPod n ns \<Rightarrow> Inr (V1Status ''Success''))"

definition flaky_cluster :: cluster where
  "flaky_cluster c =
     (case c of
        ListNamespacedPod ns pretty timeout \<Rightarrow> Inr (V1PodList three_pods)
      | DeleteNamespacedPod n ns \<Rightarrow>
          (if n = ''a'' then Inl service_unavailable else Inr (V1Status ''Success'')))"

definition unreachable_cluster :: cluster where
  "unreachable_cluster c = Inl service_unavailable"

section \<open>What an accepted request is built into\<close>

text \<open>
  When the builder returns a job, \<^verbatim>\<open>extraConfig\<close> was a configuration object, every
  step on it succeeded, and the job is the object graph of lines 141 to 174.
\<close>

lemma kube_create_job_object_Inr:
  assumes "kube_create_job_object lib name img command namespace cname env_vars extraConfig sa_name = Inr job"
  obtains cfg rr renv vmounts secReq vols podSecReq where
    "extraConfig = ExtraObject cfg"
    "resource_env lib (cfg_resources cfg) = Inr (rr, renv)"
    "map_specs lib V1VolumeMount (cfg_volumeMounts cfg) = Inr vmounts"
    "opt_spec lib V1SecurityContext (cfg_securityContext cfg) = Inr secReq"
    "map_specs lib V1Volume (cfg_volumes cfg) = Inr vols"
    "opt_spec lib V1PodSecurityContext (cfg_podSecurityContext cfg) = Inr podSecReq"
    "job = \<lparr>api_version = ''batch/v1'',
               kind = ''Job'',
               metadata = \<lparr>meta_namespace = str_or namespace ''default'', meta_name = name\<rparr>,
               status = V1JobStatus,
               spec = \<lparr>ttl_seconds_after_finished = 300,
                       template = \<lparr>template_spec =
                         \<lparr>containers =
                            [\<lparr>container_name = str_or cname ''jobcontainer'',
                              image = img,
                              env = env_entries lib env_vars @ renv,
                              image_pull_policy = ''IfNotPresent'',
                              args = str_split (str_or command ''sleep 60''),
                              resources = rr,
                              volume_mounts = vmounts,
                              container_security_context = secReq\<rparr>],
                          restart_policy = ''Never'',
                          termination_grace_period_seconds = 30,
                          volumes = vols,
                          service_account_name = sa_name,
                          pod_security_context = podSecReq,
                          node_selector = cfg_node_selector cfg\<rparr>\<rparr>,
                       backoff_limit = 2\<rparr>\<rparr>"
  using assms
  unfolding kube_create_job_object_def Let_def get_attrs_def
  by (auto split: extra_config.splits sum.splits prod.splits)

lemma example_build:
  "\<exists>job. kube_create_job_object example_library (Some ''job1'') (Some ''img'') None None None
     (Some [(''A'', ''1'')]) (ExtraObject example_config) None = Inr job"
  by (simp add: kube_create_job_object_def Let_def get_attrs_def resource_env_def getitem_def
      opt_spec_def example_library_def example_config_def)

text \<open>
  C5. For every request that the builder accepts, the pod template of the job has
  exactly one container and its restart policy is \<open>Never\<close>.
\<close>

theorem one_container_never_restart:
  assumes "kube_create_job_object lib name img command namespace cname env_vars extraConfig
             sa_name = Inr job"
  shows "length (containers (pod_spec_of job)) = 1 \<and>
         restart_policy (pod_spec_of job) = ''Never''"
  using assms by (elim kube_create_job_object_Inr) (simp add: pod_spec_of_def)

theorem one_container_never_restart_witness:
  "\<exists>job. kube_create_job_object example_library (Some ''job1'') (Some ''img'') None None None
     (Some [(''A'', ''1'')]) (ExtraObject example_config) None = Inr job
     \<and> length (containers (pod_spec_of job)) = 1 \<and> restart_policy (pod_spec_of job) = ''Never''"
proof -
  from example_build obtain job where
    b: "kube_create_job_object example_library (Some ''job1'') (Some ''img'') None None None
     (Some [(''A'', ''1'')]) (ExtraObject example_config) None = Inr job" ..
  from one_container_never_restart [OF b] b show ?thesis by blast
qed

text \<open>
  C6. For every request that the builder accepts, the job carries the fixed constants:
  termination grace period 30, retention of the finished job 300, backoff limit 2, and
  the image-pull policy \<open>IfNotPresent\<close> on its container.
\<close>

theorem fixed_constants:
  assumes "kube_create_job_object lib name img command namespace cname env_vars extraConfig
             sa_name = Inr job"
  shows "termination_grace_period_seconds (pod_spec_of job) = 30 \<and>
         ttl_seconds_after_finished (spec job) = 300 \<and>
         backoff_limit (spec job) = 2 \<and>
         map image_pull_policy (containers (pod_spec_of job)) = [''IfNotPresent'']"
  using assms by (elim kube_create_job_object_Inr) (simp add: pod_spec_of_def)

theorem fixed_constants_witness:
  "\<exists>job. kube_create_job_object example_library (Some ''job1'') (Some ''img'') None None None
     (Some [(''A'', ''1'')]) (ExtraObject example_config) None = Inr job
     \<and> termination_grace_period_seconds (pod_spec_of job) = 30
     \<and> ttl_seconds_after_finished (spec job) = 300
     \<and> backoff_limit (spec job) = 2
     \<and> map image_pull_policy (containers (pod_spec_of job)) = [''IfNotPresent'']"
proof -
  from example_build obtain job where
    b: "kube_create_job_object example_library (Some ''job1'') (Some ''img'') None None None
     (Some [(''A'', ''1'')]) (ExtraObject example_config) None = Inr job" ..
  from fixed_constants [OF b] b show ?thesis by (intro exI [of _ job]) simp
qed



section \<open>The environment of the container\<close>

text \<open>The two outcomes of lines 119 to 130 when they do not raise.\<close>

lemma resource_env_None: "resource_env lib None = Inr (rr, renv) \<Longrightarrow> rr = None \<and> renv = []"
  by (simp add: resource_env_def)

lemma resource_env_Some:
  assumes "resource_env lib (Some rs) = Inr (rr, renv)"
  shows "\<exists>requests limits cpu_requests mem_requests cpu_limits mem_limits.
           map_of rs ''requests'' = Some requests \<and>
           map_of requests ''cpu'' = Some cpu_requests \<and>
           map_of requests ''memory'' = Some mem_requests \<and>
           map_of rs ''limits'' = Some limits \<and>
           map_of limits ''cpu'' = Some cpu_limits \<and>
           map_of limits ''memory'' = Some mem_limits \<and>
           renv = [\<lparr>env_name = ''CPU_REQUESTS'', env_value = py_str lib cpu_requests\<rparr>,
                   \<lparr>env_name = ''MEM_REQUESTS'', env_value = py_str lib mem_requests\<rparr>,
                   \<lparr>env_name = ''CPU_LIMITS'', env_value = py_str lib cpu_limits\<rparr>,
                   \<lparr>env_name = ''MEM_LIMITS'', env_value = py_str lib mem_limits\<rparr>] \<and>
           rr \<noteq> None"
proof -
  note d = resource_env_def getitem_def
  obtain r where 1: "V1ResourceRequirements lib rs = Inr r"
    using assms by (cases "V1ResourceRequirements lib rs") (simp_all add: d)
  obtain requests where 2: "map_of rs ''requests'' = Some requests"
    using assms 1 by (cases "map_of rs ''requests''") (simp_all add: d)
  obtain cpu_requests where 3: "map_of requests ''cpu'' = Some cpu_requests"
    using assms 1 2 by (cases "map_of requests ''cpu''") (simp_all add: d)
  obtain mem_requests where 4: "map_of requests ''memory'' = Some mem_requests"
    using assms 1 2 3 by (cases "map_of requests ''memory''") (simp_all add: d)
  obtain limits where 5: "map_of rs ''limits'' = Some limits"
    using assms 1 2 3 4 by (cases "map_of rs ''limits''") (simp_all add: d)
  obtain cpu_limits where 6: "map_of limits ''cpu'' = Some cpu_limits"
    using assms 1 2 3 4 5 by (cases "map_of limits ''cpu''") (simp_all add: d)
  obtain mem_limits where 7: "map_of limits ''memory'' = Some mem_limits"
    using assms 1 2 3 4 5 6 by (cases "map_of limits ''memory''") (simp_all add: d)
  from assms 1 2 3 4 5 6 7 have
    "renv = [\<lparr>env_name = ''CPU_REQUESTS'', env_value = py_str lib cpu_requests\<rparr>,
             \<lparr>env_name = ''MEM_REQUESTS'', env_value = py_str lib mem_requests\<rparr>,
             \<lparr>env_name = ''CPU_LIMITS'', env_value = py_str lib cpu_limits\<rparr>,
             \<lparr>env_name = ''MEM_LIMITS'', env_value = py_str lib mem_limits\<rparr>] \<and> rr \<noteq> None"
    by (auto simp add: d)
  with 2 3 4 5 6 7 show ?thesis by blast
qed


lemma built_container:
  assumes "kube_create_job_object lib name img command namespace cname env_vars
             (ExtraObject cfg) sa_name = Inr job"
  shows "\<exists>rr renv vmounts secReq.
           resource_env lib (cfg_resources cfg) = Inr (rr, renv) \<and>
           containers (pod_spec_of job) =
             [\<lparr>container_name = str_or cname ''jobcontainer'', image = img,
               env = env_entries lib env_vars @ renv, image_pull_policy = ''IfNotPresent'',
               args = str_split (str_or command ''sleep 60''), resources = rr,
               volume_mounts = vmounts, container_security_context = secReq\<rparr>]"
  using assms by (elim kube_create_job_object_Inr) (simp add: pod_spec_of_def)


text \<open>
  C4. For every request that the builder accepts: when \<^verbatim>\<open>resources\<close> is present, the
  environment of the container is the entries of the caller followed by the four entries
  \<open>CPU_REQUESTS\<close>, \<open>MEM_REQUESTS\<close>, \<open>CPU_LIMITS\<close>, \<open>MEM_LIMITS\<close> in this order, with
  the values read from the dictionary; when it is absent, the environment is the entries
  of the caller alone and the container has no resource requirements.
\<close>

theorem resource_environment:
  assumes "kube_create_job_object lib name img command namespace cname env_vars
             (ExtraObject cfg) sa_name = Inr job"
  shows "\<exists>c. containers (pod_spec_of job) = [c] \<and>
           (case cfg_resources cfg of
              None \<Rightarrow> env c = env_entries lib env_vars \<and> resources c = None
            | Some rs \<Rightarrow>
                (\<exists>requests limits cpu_requests mem_requests cpu_limits mem_limits.
                   map_of rs ''requests'' = Some requests \<and>
                   map_of requests ''cpu'' = Some cpu_requests \<and>
                   map_of requests ''memory'' = Some mem_requests \<and>
                   map_of rs ''limits'' = Some limits \<and>
                   map_of limits ''cpu'' = Some cpu_limits \<and>
                   map_of limits ''memory'' = Some mem_limits \<and>
                   env c = env_entries lib env_vars @
                     [\<lparr>env_name = ''CPU_REQUESTS'', env_value = py_str lib cpu_requests\<rparr>,
                      \<lparr>env_name = ''MEM_REQUESTS'', env_value = py_str lib mem_requests\<rparr>,
                      \<lparr>env_name = ''CPU_LIMITS'', env_value = py_str lib cpu_limits\<rparr>,
                      \<lparr>env_name = ''MEM_LIMITS'', env_value = py_str lib mem_limits\<rparr>] \<and>
                   resources c \<noteq> None))"
proof -
  from built_container [OF assms] obtain rr renv vmounts secReq where
    re: "resource_env lib (cfg_resources cfg) = Inr (rr, renv)" and
    cs: "containers (pod_spec_of job) =
           [\<lparr>container_name = str_or cname ''jobcontainer'', image = img,
             env = env_entries lib env_vars @ renv, image_pull_policy = ''IfNotPresent'',
             args = str_split (str_or command ''sleep 60''), resources = rr,
             volume_mounts = vmounts, container_security_context = secReq\<rparr>]"
    by blast
  show ?thesis
  proof (cases "cfg_resources cfg")
    case None
    with re have "rr = None \<and> renv = []" by (simp add: resource_env_None)
    with cs None show ?thesis by simp
  next
    case (Some rs)
    with re have "resource_env lib (Some rs) = Inr (rr, renv)" by simp
    from resource_env_Some [OF this] cs Some show ?thesis by simp
  qed
qed


lemma example_build_no_resources:
  "\<exists>job. kube_create_job_object example_library (Some ''job1'') (Some ''img'') None None None
     (Some [(''A'', ''1'')]) (ExtraObject (example_config\<lparr>cfg_resources := None\<rparr>)) None = Inr job"
  by (simp add: kube_create_job_object_def Let_def get_attrs_def resource_env_def getitem_def
      opt_spec_def example_library_def example_config_def)

theorem resource_environment_witness:
  "(\<exists>job c. kube_create_job_object example_library (Some ''job1'') (Some ''img'') None None None
       (Some [(''A'', ''1'')]) (ExtraObject example_config) None = Inr job \<and>
     containers (pod_spec_of job) = [c] \<and>
     env c = [\<lparr>env_name = ''A'', env_value = ''1''\<rparr>,
              \<lparr>env_name = ''CPU_REQUESTS'', env_value = ''500m''\<rparr>,
              \<lparr>env_name = ''MEM_REQUESTS'', env_value = ''1Gi''\<rparr>,
              \<lparr>env_name = ''CPU_LIMITS'', env_value = ''1''\<rparr>,
              \<lparr>env_name = ''MEM_LIMITS'', env_value = ''2Gi''\<rparr>] \<and>
     resources c \<noteq> None) \<and>
   (\<exists>job c. kube_create_job_object example_library (Some ''job1'') (Some ''img'') None None None
       (Some [(''A'', ''1'')]) (ExtraObject (example_config\<lparr>cfg_resources := None\<rparr>)) None = Inr job \<and>
     containers (pod_spec_of job) = [c] \<and>
     env c = [\<lparr>env_name = ''A'', env_value = ''1''\<rparr>] \<and>
     resources c = None)"
proof -
  from example_build obtain job where
    b: "kube_create_job_object example_library (Some ''job1'') (Some ''img'') None None None
     (Some [(''A'', ''1'')]) (ExtraObject example_config) None = Inr job" ..
  from example_build_no_resources obtain job' where
    b': "kube_create_job_object example_library (Some ''job1'') (Some ''img'') None None None
     (Some [(''A'', ''1'')]) (ExtraObject (example_config\<lparr>cfg_resources := None\<rparr>)) None = Inr job'" ..
  from resource_environment [OF b] obtain c where
    c: "containers (pod_spec_of job) = [c]"
       "env c = [\<lparr>env_name = ''A'', env_value = ''1''\<rparr>,
              \<lparr>env_name = ''CPU_REQUESTS'', env_value = ''500m''\<rparr>,
              \<lparr>env_name = ''MEM_REQUESTS'', env_value = ''1Gi''\<rparr>,
              \<lparr>env_name = ''CPU_LIMITS'', env_value = ''1''\<rparr>,
              \<lparr>env_name = ''MEM_LIMITS'', env_value = ''2Gi''\<rparr>]"
       "resources c \<noteq> None"
    by (auto simp: example_config_def example_library_def env_entries_def)
  from resource_environment [OF b'] obtain c' where
    c': "containers (pod_spec_of job') = [c']"
        "env c' = [\<lparr>env_name = ''A'', env_value = ''1''\<rparr>]" "resources c' = None"
    by (auto simp: example_config_def example_library_def env_entries_def)
  have 1: "\<exists>job c. kube_create_job_object example_library (Some ''job1'') (Some ''img'') None None None
       (Some [(''A'', ''1'')]) (ExtraObject example_config) None = Inr job \<and>
     containers (pod_spec_of job) = [c] \<and>
     env c = [\<lparr>env_name = ''A'', env_value = ''1''\<rparr>,
              \<lparr>env_name = ''CPU_REQUESTS'', env_value = ''500m''\<rparr>,
              \<lparr>env_name = ''MEM_REQUESTS'', env_value = ''1Gi''\<rparr>,
              \<lparr>env_name = ''CPU_LIMITS'', env_value = ''1''\<rparr>,
              \<lparr>env_name = ''MEM_LIMITS'', env_value = ''2Gi''\<rparr>] \<and>
     resources c \<noteq> None"
    using b c by (intro exI [of _ job] exI [of _ c]) simp
  have 2: "\<exists>job c. kube_create_job_object example_library (Some ''job1'') (Some ''img'') None None None
       (Some [(''A'', ''1'')]) (ExtraObject (example_config\<lparr>cfg_resources := None\<rparr>)) None = Inr job \<and>
     containers (pod_spec_of job) = [c] \<and>
     env c = [\<lparr>env_name = ''A'', env_value = ''1''\<rparr>] \<and>
     resources c = None"
    using b' c' by (intro exI [of _ job'] exI [of _ c']) simp
  from 1 2 show ?thesis ..
qed


section \<open>The arguments of the container\<close>

text \<open>
  A token of \<^verbatim>\<open>str.split()\<close> is not empty and holds no whitespace, whatever the
  string is.
\<close>

lemma split_from_tokens:
  assumes "\<forall>ch\<in>set tok. \<not> isspace ch"
  shows "\<forall>t\<in>set (split_from tok s). t \<noteq> [] \<and> (\<forall>ch\<in>set t. \<not> isspace ch)"
  using assms
proof (induction s arbitrary: tok)
  case Nil
  then show ?case by simp
next
  case (Cons c cs)
  have e: "\<forall>t\<in>set (split_from [] cs). t \<noteq> [] \<and> (\<forall>ch\<in>set t. \<not> isspace ch)"
    by (rule Cons.IH) simp
  have n: "\<forall>t\<in>set (split_from (tok @ [c]) cs). t \<noteq> [] \<and> (\<forall>ch\<in>set t. \<not> isspace ch)"
    if "\<not> isspace c"
    using that Cons.prems by (intro Cons.IH) simp
  show ?case
  proof (cases "isspace c")
    case True
    with e Cons.prems show ?thesis by simp
  next
    case False
    with n show ?thesis by simp
  qed
qed

lemma str_split_tokens:
  "\<forall>t\<in>set (str_split s). t \<noteq> [] \<and> (\<forall>ch\<in>set t. \<not> isspace ch)"
  unfolding str_split_def by (rule split_from_tokens) simp

lemma split_sleep_60: "str_split ''sleep 60'' = [''sleep'', ''60'']"
  by (simp add: str_split_def isspace_def)

text \<open>
  C10. For every request that the builder accepts, the arguments of the container are
  the whitespace-separated tokens of the command, with \<open>sleep 60\<close> standing in for a
  missing or empty command (then the tokens are \<open>sleep\<close> and \<open>60\<close>); no token is
  empty or holds a whitespace character, so quoting in the command keeps nothing together.
\<close>

theorem args_are_split_command:
  assumes "kube_create_job_object lib name img command namespace cname env_vars
             (ExtraObject cfg) sa_name = Inr job"
  shows "\<exists>c. containers (pod_spec_of job) = [c] \<and>
           args c = str_split (case command of None \<Rightarrow> ''sleep 60''
                               | Some s \<Rightarrow> if s = [] then ''sleep 60'' else s) \<and>
           (\<forall>tok\<in>set (args c). tok \<noteq> [] \<and> (\<forall>ch\<in>set tok. \<not> isspace ch)) \<and>
           (command = None \<or> command = Some [] \<longrightarrow> args c = [''sleep'', ''60''])"
proof -
  from built_container [OF assms] obtain c where
    c: "containers (pod_spec_of job) = [c]" "args c = str_split (str_or command ''sleep 60'')"
    by auto
  have "command = None \<or> command = Some [] \<longrightarrow> args c = [''sleep'', ''60'']"
    using c split_sleep_60 by (auto simp: str_or_def)
  moreover have "\<forall>tok\<in>set (args c). tok \<noteq> [] \<and> (\<forall>ch\<in>set tok. \<not> isspace ch)"
    using c str_split_tokens by simp
  ultimately show ?thesis using c by (simp add: str_or_def)
qed

lemma example_build_quoted:
  "\<exists>job. kube_create_job_object example_library (Some ''job1'') (Some ''img'')
     (Some ''sh -c \"echo  a b\"'') None None None (ExtraObject example_config) None = Inr job"
  by (simp add: kube_create_job_object_def Let_def get_attrs_def resource_env_def getitem_def
      opt_spec_def example_library_def example_config_def)

theorem args_are_split_command_witness:
  "\<exists>job c. kube_create_job_object example_library (Some ''job1'') (Some ''img'')
     (Some ''sh -c \"echo  a b\"'') None None None (ExtraObject example_config) None = Inr job \<and>
     containers (pod_spec_of job) = [c] \<and>
     args c = [''sh'', ''-c'', ''\"echo'', ''a'', ''b\"'']"
proof -
  from example_build_quoted obtain job where
    b: "kube_create_job_object example_library (Some ''job1'') (Some ''img'')
     (Some ''sh -c \"echo  a b\"'') None None None (ExtraObject example_config) None = Inr job" ..
  from args_are_split_command [OF b] obtain c where
    c: "containers (pod_spec_of job) = [c]"
       "args c = [''sh'', ''-c'', ''\"echo'', ''a'', ''b\"'']"
    by (auto simp: str_split_def isspace_def)
  show ?thesis using b c by (intro exI [of _ job] exI [of _ c]) simp
qed


section \<open>The container image\<close>

text \<open>
  The builder has no check of \<^verbatim>\<open>container_image\<close>: a request without an image and
  with a well-formed configuration is accepted, and the container of the job has the
  image \<^verbatim>\<open>None\<close>.
\<close>

theorem missing_image_accepted:
  "(case kube_create_job_object example_library (Some ''job1'') None None None None None
           (ExtraObject example_config) None of
      Inl e \<Rightarrow> False
    | Inr job \<Rightarrow> map image (containers (pod_spec_of job)) = [None])"
  by (simp add: kube_create_job_object_def Let_def get_attrs_def resource_env_def getitem_def
      opt_spec_def example_library_def example_config_def pod_spec_of_def)

text \<open>Whether the builder raises, and what, does not depend on the image.\<close>

lemma builder_error_any_image:
  "(kube_create_job_object lib name None command namespace cname env_vars extraConfig sa_name
      = Inl e) =
   (kube_create_job_object lib name img command namespace cname env_vars extraConfig sa_name
      = Inl e)"
  by (simp add: kube_create_job_object_def Let_def split: sum.splits prod.splits)

text \<open>
  C3, as the code has it. The builder does not check \<^verbatim>\<open>container_image\<close>: without
  an image it raises exactly the errors that it raises with any image, and a job that it
  returns has the image \<^verbatim>\<open>None\<close> on its container. A request that the builder
  rejects fails in \<^verbatim>\<open>kube_create_job\<close> with the error of the builder before any call is
  issued.
\<close>

theorem missing_image_not_checked:
  "((kube_create_job_object lib name None command namespace cname env_vars extraConfig sa_name
       = Inl e) =
    (kube_create_job_object lib name img command namespace cname env_vars extraConfig sa_name
       = Inl e)) \<and>
   (kube_create_job_object lib name None command namespace cname env_vars extraConfig sa_name
       = Inr job \<longrightarrow> map image (containers (pod_spec_of job)) = [None]) \<and>
   (kube_create_job_object lib name img (Some (str_or command ''sleep 60''))
       (Some (str_or namespace ''default'')) None env_vars (extra_or_empty extraConfig) sa_name
       = Inl e \<longrightarrow>
    kube_create_job lib api name img command namespace extraConfig env_vars sa_name
       = (Inl e, []))"
proof (intro conjI impI)
  show "(kube_create_job_object lib name None command namespace cname env_vars extraConfig sa_name
       = Inl e) =
    (kube_create_job_object lib name img command namespace cname env_vars extraConfig sa_name
       = Inl e)"
    by (rule builder_error_any_image)
next
  assume "kube_create_job_object lib name None command namespace cname env_vars extraConfig sa_name
       = Inr job"
  then show "map image (containers (pod_spec_of job)) = [None]"
    by (elim kube_create_job_object_Inr) (simp add: pod_spec_of_def)
next
  assume "kube_create_job_object lib name img (Some (str_or command ''sleep 60''))
       (Some (str_or namespace ''default'')) None env_vars (extra_or_empty extraConfig) sa_name
       = Inl e"
  then show "kube_create_job lib api name img command namespace extraConfig env_vars sa_name
       = (Inl e, [])"
    by (simp add: kube_create_job_def Let_def)
qed

lemma example_build_no_image:
  "\<exists>job. kube_create_job_object example_library (Some ''job1'') None None None None None
     (ExtraObject example_config) None = Inr job"
  by (simp add: kube_create_job_object_def Let_def get_attrs_def resource_env_def getitem_def
      opt_spec_def example_library_def example_config_def)

theorem missing_image_not_checked_witness:
  "(\<exists>job. kube_create_job_object example_library (Some ''job1'') None None None None None
       (ExtraObject example_config) None = Inr job \<and>
     map image (containers (pod_spec_of job)) = [None]) \<and>
   kube_create_job example_library example_job_api (Some ''job1'') None None None ExtraNone
     None None = (Inl (AttributeError ''dict'' ''resources''), [])"
proof -
  from example_build_no_image obtain job where
    b: "kube_create_job_object example_library (Some ''job1'') None None None None None
       (ExtraObject example_config) None = Inr job" ..
  have f: "kube_create_job_object example_library (Some ''job1'') None
       (Some (str_or None ''sleep 60'')) (Some (str_or None ''default'')) None None
       (extra_or_empty ExtraNone) None = Inl (AttributeError ''dict'' ''resources'')"
    by (simp add: kube_create_job_object_def Let_def get_attrs_def extra_or_empty_def)
  note t = missing_image_not_checked [of example_library "Some ''job1''" None None None None
      "ExtraObject example_config" None _ _ job]
  note u = missing_image_not_checked [of example_library "Some ''job1''" None None None None
      ExtraNone None "AttributeError ''dict'' ''resources''" None _ example_job_api]
  from t b have 1: "map image (containers (pod_spec_of job)) = [None]" by blast
  from u f have 2: "kube_create_job example_library example_job_api (Some ''job1'') None None
     None ExtraNone None None = (Inl (AttributeError ''dict'' ''resources''), [])" by blast
  from b 1 have "\<exists>job. kube_create_job_object example_library (Some ''job1'') None None None
       None None (ExtraObject example_config) None = Inr job \<and>
     map image (containers (pod_spec_of job)) = [None]"
    by (intro exI [of _ job]) simp
  with 2 show ?thesis by simp
qed

section \<open>Determinism of the builder\<close>









section \<open>The job operations\<close>

text \<open>
  C9. Every call of \<^verbatim>\<open>kube_create_job\<close> without \<^verbatim>\<open>extraConfig\<close> fails before any
  call is issued: the empty dictionary that stands in for it has no attribute
  \<^verbatim>\<open>resources\<close>, so the builder raises and no job is built.
\<close>

theorem default_extra_config_fails:
  "kube_create_job lib api name img command namespace ExtraNone env_vars sa_name =
     (Inl (AttributeError ''dict'' ''resources''), [])"
  by (simp add: kube_create_job_def kube_create_job_object_def extra_or_empty_def get_attrs_def
      Let_def)

theorem default_extra_config_fails_witness:
  "kube_create_job example_library example_job_api (Some ''job1'') (Some ''img'') None None
     ExtraNone None None = (Inl (AttributeError ''dict'' ''resources''), [])"
  by (rule default_extra_config_fails)


text \<open>
  C7. \<^verbatim>\<open>kube_delete_job\<close> loads the configuration and then issues one delete call,
  with propagation policy \<open>Background\<close> and grace period 0, in the namespace given or in
  \<open>default\<close> when it is missing or empty; when loading the configuration raises, no
  delete call is issued.
\<close>

theorem delete_job_call:
  "snd (kube_delete_job api name namespace) =
     (if isl (load_incluster_config api) then [LoadInclusterConfig]
      else [LoadInclusterConfig,
            DeleteNamespacedJob name
              (case namespace of None \<Rightarrow> ''default''
               | Some ns \<Rightarrow> if ns = [] then ''default'' else ns)
              ''Background'' 0])"
  by (simp add: kube_delete_job_def Let_def str_or_def split: sum.splits)


theorem delete_job_call_witness:
  "snd (kube_delete_job example_job_api ''job1'' None) =
     [LoadInclusterConfig, DeleteNamespacedJob ''job1'' ''default'' ''Background'' 0]"
  using delete_job_call [of example_job_api "''job1''" None]
  by (simp add: example_job_api_def)


section \<open>The clean-up of completed pods\<close>

text \<open>
  Whatever the cluster holds and would answer, \<^verbatim>\<open>kube_delete_empty_pods\<close> makes the
  coroutine of the list call, awaits nothing and fails at line 42 on the attribute
  \<^verbatim>\<open>items\<close> of the coroutine: no request reaches the cluster, the loop is not
  entered, nothing is logged and nothing is returned.
\<close>

lemma kube_delete_empty_pods_unawaited:
  "kube_delete_empty_pods cluster namespace phase =
     (Inl (AttributeError ''coroutine'' ''items''),
      [Created (ListNamespacedPod (str_or namespace ''default'') True 60)])"
  by (simp add: kube_delete_empty_pods_def call_unawaited_def Let_def)

text \<open>
  C1, at a namespace of three pods, two in phase \<open>Succeeded\<close> and one in phase
  \<open>Running\<close>, with the phase filter \<open>Succeeded\<close>: whether every delete would succeed or
  the delete of one pod would fail, the function raises \<^verbatim>\<open>AttributeError\<close> after making
  the coroutine of the list call. It issues no delete and returns no count.
\<close>

theorem three_pods_not_cleaned:
  "healthy_cluster (ListNamespacedPod ''jobs'' True 60) = Inr (V1PodList three_pods) \<and>
   healthy_cluster (DeleteNamespacedPod ''a'' ''jobs'') = Inr (V1Status ''Success'') \<and>
   healthy_cluster (DeleteNamespacedPod ''c'' ''jobs'') = Inr (V1Status ''Success'') \<and>
   kube_delete_empty_pods healthy_cluster (Some ''jobs'') (Some ''Succeeded'') =
     (Inl (AttributeError ''coroutine'' ''items''),
      [Created (ListNamespacedPod ''jobs'' True 60)]) \<and>
   flaky_cluster (ListNamespacedPod ''jobs'' True 60) = Inr (V1PodList three_pods) \<and>
   flaky_cluster (DeleteNamespacedPod ''a'' ''jobs'') = Inl service_unavailable \<and>
   flaky_cluster (DeleteNamespacedPod ''c'' ''jobs'') = Inr (V1Status ''Success'') \<and>
   kube_delete_empty_pods flaky_cluster (Some ''jobs'') (Some ''Succeeded'') =
     (Inl (AttributeError ''coroutine'' ''items''),
      [Created (ListNamespacedPod ''jobs'' True 60)])"
  by (simp add: kube_delete_empty_pods_unawaited healthy_cluster_def flaky_cluster_def
      str_or_def)

text \<open>
  C2, at a cluster that answers the list request by an error: the list call is never
  awaited, so its failure is not seen; the function raises the same
  \<^verbatim>\<open>AttributeError\<close> as on every cluster, which says nothing of the list call, and
  the handler of lines 39 and 40 is not entered.
\<close>

theorem list_failure_not_seen:
  "unreachable_cluster (ListNamespacedPod ''default'' True 60) = Inl service_unavailable \<and>
   kube_delete_empty_pods unreachable_cluster None None =
     (Inl (AttributeError ''coroutine'' ''items''),
      [Created (ListNamespacedPod ''default'' True 60)])"
  by (simp add: kube_delete_empty_pods_unawaited unreachable_cluster_def str_or_def)

end
